theory Spec2Isabelle
  imports Main
begin

section \<open>JavaScript values\<close>

text \<open>
  The rule in \<^verbatim>\<open>lib/rules/my-rule.js\<close> reads one property of the node it is handed
  and compares it with a string literal. The values it can meet are modelled by
  \<open>jsval\<close>: the two nullish values, the primitives, arrays and plain data objects.
  An object is its list of own properties in insertion order; a property read takes the
  first entry with the given key. Syntax-tree nodes are plain data objects (no accessor
  properties, no proxies), so reading a property runs no code of its own. The payload of
  a number is never inspected by the rule.
\<close>

datatype jsval =
    JUndefined
  | JNull
  | JBool bool
  | JNum int
  | JStr string
  | JArr "jsval list"
  | JObj "(string \<times> jsval) list"

text \<open>The only exception the rule's own code can raise.\<close>

datatype error = TypeError

text \<open>
  \<^verbatim>\<open>node.kind\<close>: reading a property of \<^verbatim>\<open>undefined\<close> or \<^verbatim>\<open>null\<close> throws a TypeError;
  an object without the property yields \<^verbatim>\<open>undefined\<close>; so does every primitive and
  every array, none of which has a property called \<^verbatim>\<open>kind\<close>.
\<close>

fun get_kind :: "jsval \<Rightarrow> error + jsval" where
  "get_kind JUndefined = Inl TypeError"
| "get_kind JNull = Inl TypeError"
| "get_kind (JObj props) =
     (case map_of props ''kind'' of None \<Rightarrow> Inr JUndefined | Some v \<Rightarrow> Inr v)"
| "get_kind (JBool b) = Inr JUndefined"
| "get_kind (JNum n) = Inr JUndefined"
| "get_kind (JStr s) = Inr JUndefined"
| "get_kind (JArr xs) = Inr JUndefined"

text \<open>
  \<^verbatim>\<open>v === "..."\<close>: strict equality with a string literal holds only for a string
  value with the same characters; no conversion takes place.
\<close>

fun strict_eq_str :: "jsval \<Rightarrow> string \<Rightarrow> bool" where
  "strict_eq_str (JStr s) t = (s = t)"
| "strict_eq_str JUndefined t = False"
| "strict_eq_str JNull t = False"
| "strict_eq_str (JBool b) t = False"
| "strict_eq_str (JNum n) t = False"
| "strict_eq_str (JArr xs) t = False"
| "strict_eq_str (JObj props) t = False"

section \<open>The rule\<close>

text \<open>
  The context is the engine's object; the rule uses only its \<^verbatim>\<open>report\<close> method, called
  with a node and a message. What the engine does with a report is its own business: it
  is a transformation of the engine's state \<open>'e\<close>, and the rule is parametric in it.
\<close>

record 'e rule_context =
  report :: "jsval \<Rightarrow> jsval \<Rightarrow> 'e \<Rightarrow> 'e"

text \<open>
  A handler is called with a node; it ends normally (\<open>None\<close>) or by throwing
  (\<open>Some e\<close>), and leaves the engine in a state.
\<close>

type_synonym 'e handler = "jsval \<Rightarrow> 'e \<Rightarrow> error option \<times> 'e"

text \<open>
  \<^verbatim>\<open>
  VariableDeclaration: function (node) {
    if (node.kind === "var") {
      context.report(node, "Unexpected var, use let or const instead.");
    }
  }
  \<close>
\<close>

definition VariableDeclaration :: "'e rule_context \<Rightarrow> 'e handler" where
  "VariableDeclaration ctx node s =
     (case get_kind node of
        Inl e \<Rightarrow> (Some e, s)
      | Inr k \<Rightarrow>
          if strict_eq_str k ''var''
          then (None,
                report ctx node (JStr ''Unexpected var, use let or const instead.'') s)
          else (None, s))"

text \<open>
  \<^verbatim>\<open>create: function (context) { return { VariableDeclaration: ... }; }\<close>
  The returned object is its list of properties: node-kind identifier and handler.
\<close>

definition create :: "'e rule_context \<Rightarrow> (string \<times> 'e handler) list" where
  "create ctx = [(''VariableDeclaration'', VariableDeclaration ctx)]"

text \<open>The \<^verbatim>\<open>meta\<close> property of the exported object.\<close>

record meta_docs =
  description :: string
  category :: string
  recommended :: bool

record rule_meta =
  type :: string
  docs :: meta_docs
  schema :: "jsval list"

definition meta :: rule_meta where
  "meta = \<lparr> type = ''problem'',
            docs = \<lparr> description = ''disallow the use of '' @ [CHR 0x27] @ ''var'' @ [CHR 0x27],
                     category = ''Best Practices'',
                     recommended = True \<rparr>,
            schema = [] \<rparr>"

section \<open>An engine that records\<close>

text \<open>
  To count report calls the rule is run against a context whose state is the list of
  the calls made so far, each with its two arguments, oldest first.
\<close>

type_synonym diagnostic = "jsval \<times> jsval"

definition recording_context :: "diagnostic list rule_context" where
  "recording_context = \<lparr> report = (\<lambda>node message log. log @ [(node, message)]) \<rparr>"

text \<open>
  The engine itself is outside the repository. Of a traversal the rule observes only
  this: the nodes are visited one after the other, a node's \<^verbatim>\<open>type\<close> selects the
  handler registered under that name, if any, and an exception thrown by a handler ends
  the traversal.
\<close>

fun node_type :: "jsval \<Rightarrow> string option" where
  "node_type (JObj props) =
     (case map_of props ''type'' of Some (JStr t) \<Rightarrow> Some t | _ \<Rightarrow> None)"
| "node_type _ = None"

fun traverse :: "(string \<times> 'e handler) list \<Rightarrow> jsval list \<Rightarrow> 'e \<Rightarrow> error option \<times> 'e" where
  "traverse handlers [] s = (None, s)"
| "traverse handlers (n # ns) s =
     (case Option.bind (node_type n) (map_of handlers) of
        None \<Rightarrow> traverse handlers ns s
      | Some h \<Rightarrow>
          (case h n s of
             (Some e, s') \<Rightarrow> (Some e, s')
           | (None, s') \<Rightarrow> traverse handlers ns s'))"

text \<open>
  The node the parser builds for a statement \<^verbatim>\<open>k name = v;\<close> with one declarator and a
  numeric literal, as in the snippets of the test file (\<^verbatim>\<open>let x = 5;\<close>,
  \<^verbatim>\<open>const y = 10;\<close>, \<^verbatim>\<open>var z = 15;\<close>).
\<close>

definition declaration_node :: "string \<Rightarrow> string \<Rightarrow> int \<Rightarrow> jsval" where
  "declaration_node k name v =
     JObj [(''type'', JStr ''VariableDeclaration''),
           (''declarations'',
              JArr [JObj [(''type'', JStr ''VariableDeclarator''),
                          (''id'', JObj [(''type'', JStr ''Identifier''),
                                         (''name'', JStr name)]),
                          (''init'', JObj [(''type'', JStr ''Literal''),
                                           (''value'', JNum v)])]]),
           (''kind'', JStr k)]"

lemma get_kind_declaration [simp]: "get_kind (declaration_node k name v) = Inr (JStr k)"
  by (simp add: declaration_node_def)

lemma node_type_declaration [simp]:
  "node_type (declaration_node k name v) = Some ''VariableDeclaration''"
  by (simp add: declaration_node_def)

section \<open>The handler on the disallowed declaration form\<close>

text \<open>
  C1. For every node whose \<^verbatim>\<open>kind\<close> reads as the string \<^verbatim>\<open>"var"\<close>, one invocation of
  the handler ends normally and its whole effect is one call of \<^verbatim>\<open>report\<close>, with that
  node and the message \<^verbatim>\<open>"Unexpected var, use let or const instead."\<close>: whatever the
  engine's \<^verbatim>\<open>report\<close> does, the state afterwards is the one a single such call
  produces, and against the recording engine exactly one entry, holding that node and
  that message, is appended to the calls made before.
\<close>

theorem VariableDeclaration_var_reports_once:
  assumes "get_kind node = Inr (JStr ''var'')"
  shows "VariableDeclaration ctx node s =
           (None, report ctx node (JStr ''Unexpected var, use let or const instead.'') s)
         \<and> VariableDeclaration recording_context node log =
           (None, log @ [(node, JStr ''Unexpected var, use let or const instead.'')])
         \<and> length (snd (VariableDeclaration recording_context node log)) = length log + 1"
  using assms by (simp add: VariableDeclaration_def recording_context_def)

theorem VariableDeclaration_var_reports_once_witness:
  "get_kind (declaration_node ''var'' ''z'' 15) = Inr (JStr ''var'')
   \<and> VariableDeclaration recording_context (declaration_node ''var'' ''z'' 15) [] =
       (None, [(declaration_node ''var'' ''z'' 15, JStr ''Unexpected var, use let or const instead.'')])
   \<and> length (snd (VariableDeclaration recording_context (declaration_node ''var'' ''z'' 15) [])) = 1"
  using VariableDeclaration_var_reports_once
          [where node = "declaration_node ''var'' ''z'' 15" and ctx = recording_context
             and s = "[]" and log = "[]"]
  by (simp add: recording_context_def)

section \<open>The handler on the allowed declaration forms\<close>

text \<open>
  C2. For every node whose \<^verbatim>\<open>kind\<close> reads as \<^verbatim>\<open>"let"\<close> or as \<^verbatim>\<open>"const"\<close>, an invocation
  of the handler ends normally and makes no call of \<^verbatim>\<open>report\<close>: the engine's state is
  left as it was, and the recording engine's list of calls is unchanged.
\<close>

theorem VariableDeclaration_let_const_silent:
  assumes "get_kind node = Inr (JStr ''let'') \<or> get_kind node = Inr (JStr ''const'')"
  shows "VariableDeclaration ctx node s = (None, s)
         \<and> snd (VariableDeclaration recording_context node log) = log"
  using assms by (auto simp add: VariableDeclaration_def)

theorem VariableDeclaration_let_const_silent_witness:
  "VariableDeclaration recording_context (declaration_node ''let'' ''x'' 5) [] = (None, [])
   \<and> VariableDeclaration recording_context (declaration_node ''const'' ''y'' 10) [] = (None, [])"
  using VariableDeclaration_let_const_silent
          [where node = "declaration_node ''let'' ''x'' 5" and ctx = recording_context
             and s = "[]" and log = "[]"]
        VariableDeclaration_let_const_silent
          [where node = "declaration_node ''const'' ''y'' 10" and ctx = recording_context
             and s = "[]" and log = "[]"]
  by simp

section \<open>At most one report for each invocation\<close>

text \<open>
  C3. For every value passed as the node, also one that is no declaration node at all,
  one invocation of the handler calls \<^verbatim>\<open>report\<close> at most once: the engine's state
  afterwards is either the state before or the result of a single call of \<^verbatim>\<open>report\<close>
  on it, and the recording engine's list of calls grows by at most one entry.
\<close>

theorem VariableDeclaration_at_most_one_report:
  "(snd (VariableDeclaration ctx node s) = s
      \<or> snd (VariableDeclaration ctx node s) = report ctx node (JStr ''Unexpected var, use let or const instead.'') s)
   \<and> (snd (VariableDeclaration recording_context node log) = log
      \<or> snd (VariableDeclaration recording_context node log) = log @ [(node, JStr ''Unexpected var, use let or const instead.'')])
   \<and> length (snd (VariableDeclaration recording_context node log)) \<le> length log + 1"
  by (cases "get_kind node") (simp_all add: VariableDeclaration_def recording_context_def)

section \<open>The factory\<close>

text \<open>
  C4. For every context, \<^verbatim>\<open>create\<close> returns an object with exactly one property: its
  key is \<^verbatim>\<open>"VariableDeclaration"\<close>, its value is the handler closed over that context,
  and no other node kind is registered.
\<close>

theorem create_registers_one_handler:
  "length (create ctx) = 1
   \<and> map fst (create ctx) = [''VariableDeclaration'']
   \<and> map_of (create ctx) ''VariableDeclaration'' = Some (VariableDeclaration ctx)
   \<and> dom (map_of (create ctx)) = {''VariableDeclaration''}"
  by (simp add: create_def)

section \<open>No state between visits\<close>

lemma VariableDeclaration_recording_append:
  "VariableDeclaration recording_context node log =
     (fst (VariableDeclaration recording_context node []),
      log @ snd (VariableDeclaration recording_context node []))"
  by (cases "get_kind node") (simp_all add: VariableDeclaration_def recording_context_def)

text \<open>
  C5. The handler keeps no state. Whatever calls were recorded before (\<open>log\<close>), an
  invocation on a node ends the same way and appends the same diagnostics as an
  invocation on that node with nothing recorded before; so a second visit of the node
  appends once more what the first visit appended. And two nodes whose \<^verbatim>\<open>kind\<close> reads
  the same, visited after any two histories, end the same way and emit the same number
  of diagnostics with the same messages.
\<close>

theorem VariableDeclaration_stateless:
  "VariableDeclaration recording_context node log =
     (fst (VariableDeclaration recording_context node []),
      log @ snd (VariableDeclaration recording_context node []))
   \<and> snd (VariableDeclaration recording_context node
            (snd (VariableDeclaration recording_context node log))) =
       log @ snd (VariableDeclaration recording_context node [])
           @ snd (VariableDeclaration recording_context node [])
   \<and> (get_kind node = get_kind node' \<longrightarrow>
        fst (VariableDeclaration recording_context node log) =
          fst (VariableDeclaration recording_context node' log')
        \<and> map snd (drop (length log) (snd (VariableDeclaration recording_context node log))) =
          map snd (drop (length log') (snd (VariableDeclaration recording_context node' log'))))"
proof (intro conjI impI)
  show "VariableDeclaration recording_context node log =
     (fst (VariableDeclaration recording_context node []),
      log @ snd (VariableDeclaration recording_context node []))"
    by (rule VariableDeclaration_recording_append)
next
  show "snd (VariableDeclaration recording_context node
            (snd (VariableDeclaration recording_context node log))) =
       log @ snd (VariableDeclaration recording_context node [])
           @ snd (VariableDeclaration recording_context node [])"
    by (cases "get_kind node") (simp_all add: VariableDeclaration_def recording_context_def)
next
  assume "get_kind node = get_kind node'"
  then show "fst (VariableDeclaration recording_context node log) =
          fst (VariableDeclaration recording_context node' log')"
    by (cases "get_kind node'") (simp_all add: VariableDeclaration_def)
next
  assume "get_kind node = get_kind node'"
  then show "map snd (drop (length log) (snd (VariableDeclaration recording_context node log))) =
          map snd (drop (length log') (snd (VariableDeclaration recording_context node' log')))"
    by (cases "get_kind node'") (simp_all add: VariableDeclaration_def recording_context_def)
qed

theorem VariableDeclaration_stateless_witness:
  "get_kind (declaration_node ''var'' ''a'' 1) = get_kind (declaration_node ''var'' ''b'' 2)
   \<and> snd (VariableDeclaration recording_context (declaration_node ''var'' ''a'' 1)
            (snd (VariableDeclaration recording_context (declaration_node ''var'' ''a'' 1) []))) =
       snd (VariableDeclaration recording_context (declaration_node ''var'' ''a'' 1) [])
         @ snd (VariableDeclaration recording_context (declaration_node ''var'' ''a'' 1) [])
   \<and> fst (VariableDeclaration recording_context (declaration_node ''var'' ''a'' 1) []) =
       fst (VariableDeclaration recording_context (declaration_node ''var'' ''b'' 2)
              [(declaration_node ''var'' ''a'' 1, JStr ''Unexpected var, use let or const instead.'')])"
  using VariableDeclaration_stateless
          [where node = "declaration_node ''var'' ''a'' 1" and node' = "declaration_node ''var'' ''b'' 2"
             and log = "[]" and log' = "[(declaration_node ''var'' ''a'' 1, JStr ''Unexpected var, use let or const instead.'')]"]
  by simp

section \<open>Two legacy declarations in sequence\<close>

text \<open>
  C6. A traversal that visits, in sequence, two declaration nodes whose \<^verbatim>\<open>kind\<close> reads
  as \<^verbatim>\<open>"var"\<close>, with the handlers of \<^verbatim>\<open>create\<close> registered, ends normally with exactly
  two diagnostics: the first for the first node, the second for the second node, both
  with the message \<^verbatim>\<open>"Unexpected var, use let or const instead."\<close>.
\<close>

theorem traverse_two_var_declarations:
  assumes "node_type n1 = Some ''VariableDeclaration''"
      and "node_type n2 = Some ''VariableDeclaration''"
      and "get_kind n1 = Inr (JStr ''var'')"
      and "get_kind n2 = Inr (JStr ''var'')"
  shows "traverse (create recording_context) [n1, n2] [] =
           (None, [(n1, JStr ''Unexpected var, use let or const instead.''), (n2, JStr ''Unexpected var, use let or const instead.'')])"
  using assms by (simp add: create_def VariableDeclaration_def recording_context_def)

theorem traverse_two_var_declarations_witness:
  "node_type (declaration_node ''var'' ''a'' 1) = Some ''VariableDeclaration''
   \<and> get_kind (declaration_node ''var'' ''b'' 2) = Inr (JStr ''var'')
   \<and> snd (traverse (create recording_context)
            [declaration_node ''var'' ''a'' 1, declaration_node ''var'' ''b'' 2] []) =
       [(declaration_node ''var'' ''a'' 1, JStr ''Unexpected var, use let or const instead.''), (declaration_node ''var'' ''b'' 2, JStr ''Unexpected var, use let or const instead.'')]
   \<and> length (snd (traverse (create recording_context)
            [declaration_node ''var'' ''a'' 1, declaration_node ''var'' ''b'' 2] [])) = 2"
  using traverse_two_var_declarations
          [where ?n1.0 = "declaration_node ''var'' ''a'' 1"
             and ?n2.0 = "declaration_node ''var'' ''b'' 2"]
  by simp

section \<open>The metadata\<close>

text \<open>
  C7. The metadata of the rule: the type is \<^verbatim>\<open>"problem"\<close>, the documentation holds the
  description \<^verbatim>\<open>"disallow the use of 'var'"\<close>, the category \<^verbatim>\<open>"Best Practices"\<close> and the
  flag \<^verbatim>\<open>recommended\<close> set to true, and the options schema is the empty list: it
  describes no option at any position.
\<close>

theorem meta_fields:
  "type meta = ''problem''
   \<and> description (docs meta) = ''disallow the use of '' @ [CHR 0x27] @ ''var'' @ [CHR 0x27]
   \<and> length (description (docs meta)) = 25
   \<and> category (docs meta) = ''Best Practices''
   \<and> recommended (docs meta) = True
   \<and> schema meta = []
   \<and> length (schema meta) = 0"
  by (simp add: meta_def)

section \<open>No failure on well-formed nodes\<close>

text \<open>
  C8. When the node is an object that carries a \<^verbatim>\<open>kind\<close> property, whatever its value,
  reading the property does not throw and the handler ends normally; the engine's state
  afterwards is the state before, or the result of the one call of \<^verbatim>\<open>report\<close> on it.
  Nothing else is changed.
\<close>

theorem VariableDeclaration_cannot_fail:
  assumes "map_of props ''kind'' = Some k"
  shows "get_kind (JObj props) = Inr k
         \<and> fst (VariableDeclaration ctx (JObj props) s) = None
         \<and> (snd (VariableDeclaration ctx (JObj props) s) = s
            \<or> snd (VariableDeclaration ctx (JObj props) s) =
                 report ctx (JObj props) (JStr ''Unexpected var, use let or const instead.'') s)"
  using assms by (simp add: VariableDeclaration_def)

theorem VariableDeclaration_cannot_fail_witness:
  "map_of [(''type'', JStr ''VariableDeclaration''), (''declarations'', JArr []),
           (''kind'', JStr ''var'')] ''kind'' = Some (JStr ''var'')
   \<and> fst (VariableDeclaration recording_context
            (JObj [(''type'', JStr ''VariableDeclaration''), (''declarations'', JArr []),
                   (''kind'', JStr ''var'')]) []) = None"
  using VariableDeclaration_cannot_fail
          [where props = "[(''type'', JStr ''VariableDeclaration''), (''declarations'', JArr []),
                           (''kind'', JStr ''var'')]"
             and k = "JStr ''var''" and ctx = recording_context and s = "[]"]
  by simp

section \<open>Nodes without a kind\<close>

text \<open>
  C9. For a node object whose \<^verbatim>\<open>kind\<close> property is absent, or present with the value
  \<^verbatim>\<open>undefined\<close>, the handler does not throw and makes no call of \<^verbatim>\<open>report\<close>: the
  comparison with \<^verbatim>\<open>"var"\<close> is false.
\<close>

theorem VariableDeclaration_absent_kind:
  assumes "map_of props ''kind'' = None \<or> map_of props ''kind'' = Some JUndefined"
  shows "strict_eq_str JUndefined ''var'' = False
         \<and> VariableDeclaration ctx (JObj props) s = (None, s)
         \<and> snd (VariableDeclaration recording_context (JObj props) log) = log"
  using assms by (auto simp add: VariableDeclaration_def)

theorem VariableDeclaration_absent_kind_witness:
  "map_of [(''type'', JStr ''VariableDeclaration''), (''declarations'', JArr [])] ''kind'' = None
   \<and> VariableDeclaration recording_context
        (JObj [(''type'', JStr ''VariableDeclaration''), (''declarations'', JArr [])]) [] =
       (None, [])"
  using VariableDeclaration_absent_kind
          [where props = "[(''type'', JStr ''VariableDeclaration''), (''declarations'', JArr [])]"
             and ctx = recording_context and s = "[]" and log = "[]"]
  by simp

section \<open>Exact comparison\<close>

text \<open>
  C10. The test is equality of strings, character for character: for every node whose
  \<^verbatim>\<open>kind\<close> reads as a string other than \<^verbatim>\<open>"var"\<close>, such as \<^verbatim>\<open>"Var"\<close>, \<^verbatim>\<open>"VAR"\<close> or
  \<^verbatim>\<open>" var"\<close>, the handler ends normally and makes no call of \<^verbatim>\<open>report\<close>.
\<close>

theorem VariableDeclaration_other_string_silent:
  assumes "get_kind node = Inr (JStr k)" and "k \<noteq> ''var''"
  shows "VariableDeclaration ctx node s = (None, s)
         \<and> snd (VariableDeclaration recording_context node log) = log"
  using assms by (simp add: VariableDeclaration_def)

theorem VariableDeclaration_other_string_silent_witness:
  "''Var'' \<noteq> ''var'' \<and> ''VAR'' \<noteq> ''var'' \<and> '' var'' \<noteq> ''var''
   \<and> VariableDeclaration recording_context (declaration_node ''Var'' ''x'' 5) [] = (None, [])
   \<and> VariableDeclaration recording_context (declaration_node ''VAR'' ''x'' 5) [] = (None, [])
   \<and> VariableDeclaration recording_context (declaration_node '' var'' ''x'' 5) [] = (None, [])"
  using VariableDeclaration_other_string_silent
          [where node = "declaration_node ''Var'' ''x'' 5" and k = "''Var''"
             and ctx = recording_context and s = "[]" and log = "[]"]
        VariableDeclaration_other_string_silent
          [where node = "declaration_node ''VAR'' ''x'' 5" and k = "''VAR''"
             and ctx = recording_context and s = "[]" and log = "[]"]
        VariableDeclaration_other_string_silent
          [where node = "declaration_node '' var'' ''x'' 5" and k = "'' var''"
             and ctx = recording_context and s = "[]" and log = "[]"]
  by simp

end
